theory Spec2Isabelle
  imports Main
begin

section \<open>killod.py: kill OneDrive, then open it again\<close>

text \<open>
  The script is a straight line of \<^verbatim>\<open>print\<close> statements around two calls of
  \<^verbatim>\<open>subprocess.run(..., stdout=subprocess.PIPE)\<close>. Its only interaction with
  the outside is the two child processes and the console, so the model is a function from
  the host the script runs on to the chronological list of events it causes, together
  with how the interpreter ends.
\<close>

subsection \<open>The host and the child processes\<close>

text \<open>
  Python \<^verbatim>\<open>bytes\<close> are sequences of 8-bit values and so are Isabelle's characters;
  a \<^verbatim>\<open>str\<close> is modelled on its Latin-1 range.
\<close>

type_synonym bytes = "char list"

text \<open>The exceptions \<^verbatim>\<open>subprocess.run\<close> raises when the command cannot be started.\<close>

datatype os_error = FileNotFoundError | PermissionError | OSError nat

text \<open>What a child process did before it ended.\<close>

record child_process =
  wrote_stdout :: bytes
  wrote_stderr :: bytes
  exit_code :: int

text \<open>
  The host: everything a Python process could read. \<open>spawn\<close> is the behaviour of the
  operating system when asked to run a command line to completion.
\<close>

record host =
  sys_argv :: "string list"
  environ :: "(string \<times> string) list"
  files :: "(string \<times> bytes) list"
  spawn :: "string list \<Rightarrow> os_error + child_process"

subsection \<open>The library calls the script uses\<close>

datatype redirect = PIPE

record CompletedProcess =
  args :: "string list"
  returncode :: int
  stdout :: "bytes option"
  stderr :: "bytes option"

text \<open>
  A stream given as \<^verbatim>\<open>PIPE\<close> is collected into the result; a stream left at its
  default \<^verbatim>\<open>None\<close> is inherited by the child and the attribute of the result is
  \<^verbatim>\<open>None\<close>.
\<close>

definition capture :: "redirect option \<Rightarrow> bytes \<Rightarrow> bytes option" where
  "capture r written = (case r of None \<Rightarrow> None | Some PIPE \<Rightarrow> Some written)"

text \<open>
  \<^verbatim>\<open>subprocess.run(args, stdout=..., stderr=...)\<close> without \<^verbatim>\<open>check\<close> and without
  \<^verbatim>\<open>timeout\<close>: it blocks until the child has ended, it raises only when the child
  cannot be started, and any exit code is returned in the result.
\<close>

definition subprocess_run ::
  "host \<Rightarrow> string list \<Rightarrow> redirect option \<Rightarrow> redirect option \<Rightarrow> os_error + CompletedProcess" where
  "subprocess_run h a out err =
     (case spawn h a of
        Inl e \<Rightarrow> Inl e
      | Inr p \<Rightarrow> Inr \<lparr>args = a, returncode = exit_code p,
                     stdout = capture out (wrote_stdout p),
                     stderr = capture err (wrote_stderr p)\<rparr>)"

text \<open>Truth value of \<^verbatim>\<open>result.stdout\<close>: \<^verbatim>\<open>None\<close> and \<^verbatim>\<open>b''\<close> are false.\<close>

definition truthy :: "bytes option \<Rightarrow> bool" where
  "truthy b = (case b of None \<Rightarrow> False | Some x \<Rightarrow> x \<noteq> [])"

subsection \<open>What \<^verbatim>\<open>print(result)\<close> writes\<close>

text \<open>
  \<^verbatim>\<open>print\<close> writes \<^verbatim>\<open>str(result)\<close>, which for a \<^verbatim>\<open>CompletedProcess\<close> is its
  \<^verbatim>\<open>repr\<close>: the class name and, in parentheses, \<^verbatim>\<open>args=\<close>, \<^verbatim>\<open>returncode=\<close> and
  each captured stream that is not \<^verbatim>\<open>None\<close>, every value through its own \<^verbatim>\<open>repr\<close>.
\<close>

definition hexdigit :: "nat \<Rightarrow> char" where
  "hexdigit n = ''0123456789abcdef'' ! (n mod 16)"

definition hex_escape :: "char \<Rightarrow> string" where
  "hex_escape c =
     [CHR 0x5C, CHR ''x'', hexdigit (of_char c div 16), hexdigit (of_char c mod 16)]"

definition pick_quote :: "char list \<Rightarrow> char" where
  "pick_quote s = (if CHR 0x27 \<in> set s \<and> CHR 0x22 \<notin> set s then CHR 0x22 else CHR 0x27)"

definition escape_byte :: "char \<Rightarrow> char \<Rightarrow> string" where
  "escape_byte q c =
     (if c = q \<or> c = CHR 0x5C then [CHR 0x5C, c]
      else if c = CHR 0x09 then [CHR 0x5C, CHR ''t'']
      else if c = CHR 0x0A then [CHR 0x5C, CHR ''n'']
      else if c = CHR 0x0D then [CHR 0x5C, CHR ''r'']
      else if (of_char c :: nat) < 32 \<or> (of_char c :: nat) \<ge> 127 then hex_escape c
      else [c])"

definition repr_bytes :: "bytes \<Rightarrow> string" where
  "repr_bytes b =
     (let q = pick_quote b in CHR ''b'' # q # concat (map (escape_byte q) b) @ [q])"

text \<open>
  In a \<^verbatim>\<open>str\<close> the characters above ASCII are copied when printable; in Latin-1 the
  unprintable ones are 0x80 to 0xA0 and 0xAD.
\<close>

definition isprintable :: "char \<Rightarrow> bool" where
  "isprintable c =
     (let n = (of_char c :: nat)
      in 32 \<le> n \<and> n < 127 \<or> 161 \<le> n \<and> n \<noteq> 173)"

definition escape_char :: "char \<Rightarrow> char \<Rightarrow> string" where
  "escape_char q c =
     (if c = q \<or> c = CHR 0x5C then [CHR 0x5C, c]
      else if c = CHR 0x09 then [CHR 0x5C, CHR ''t'']
      else if c = CHR 0x0A then [CHR 0x5C, CHR ''n'']
      else if c = CHR 0x0D then [CHR 0x5C, CHR ''r'']
      else if \<not> isprintable c then hex_escape c
      else [c])"

definition repr_str :: "string \<Rightarrow> string" where
  "repr_str s = (let q = pick_quote s in q # concat (map (escape_char q) s) @ [q])"

fun join :: "string \<Rightarrow> string list \<Rightarrow> string" where
  "join sep [] = []"
| "join sep [x] = x"
| "join sep (x # y # ys) = x @ sep @ join sep (y # ys)"

definition repr_list :: "string list \<Rightarrow> string" where
  "repr_list xs = ''['' @ join '', '' (map repr_str xs) @ '']''"

fun decimal :: "nat \<Rightarrow> string" where
  "decimal n =
     (if n < 10 then [''0123456789'' ! n]
      else decimal (n div 10) @ [''0123456789'' ! (n mod 10)])"

declare decimal.simps [simp del]

definition repr_int :: "int \<Rightarrow> string" where
  "repr_int i = (if i < 0 then CHR ''-'' # decimal (nat (- i)) else decimal (nat i))"

definition repr_CompletedProcess :: "CompletedProcess \<Rightarrow> string" where
  "repr_CompletedProcess r =
     ''CompletedProcess('' @
     join '', ''
       ([''args='' @ repr_list (args r), ''returncode='' @ repr_int (returncode r)]
        @ (case stdout r of None \<Rightarrow> [] | Some b \<Rightarrow> [''stdout='' @ repr_bytes b])
        @ (case stderr r of None \<Rightarrow> [] | Some b \<Rightarrow> [''stderr='' @ repr_bytes b]))
     @ '')''"

subsection \<open>Events and the end of a run\<close>

text \<open>
  \<open>Print n s\<close>: the \<^verbatim>\<open>print\<close> statement on line \<open>n\<close> of the script wrote the line
  \<open>s\<close> to the console. \<open>Invoke a\<close>: the command line \<open>a\<close> was handed to the operating
  system. \<open>Returned r\<close> and \<open>Raised e\<close>: the pending call came back with a result, or
  with an exception.
\<close>

datatype event =
    Print nat string
  | Invoke "string list"
  | Returned CompletedProcess
  | Raised os_error

record outcome =
  trace :: "event list"
  uncaught :: "os_error option"
  exit_status :: int

definition print :: "nat \<Rightarrow> string \<Rightarrow> event list \<Rightarrow> event list" where
  "print n s t = t @ [Print n s]"

text \<open>The call as the script writes it: \<^verbatim>\<open>subprocess.run(a, stdout=subprocess.PIPE)\<close>.\<close>

definition run ::
  "host \<Rightarrow> string list \<Rightarrow> event list \<Rightarrow> (os_error + CompletedProcess) \<times> event list" where
  "run h a t =
     (case subprocess_run h a (Some PIPE) None of
        Inl e \<Rightarrow> (Inl e, t @ [Invoke a, Raised e])
      | Inr r \<Rightarrow> (Inr r, t @ [Invoke a, Returned r]))"

text \<open>
  The interpreter ends with status 0 after the last statement, and with a traceback and
  status 1 when an exception is not handled; the script has no \<^verbatim>\<open>try\<close>.
\<close>

definition completed :: "event list \<Rightarrow> outcome" where
  "completed t = \<lparr>trace = t, uncaught = None, exit_status = 0\<rparr>"

definition unhandled :: "os_error \<Rightarrow> event list \<Rightarrow> outcome" where
  "unhandled e t = \<lparr>trace = t, uncaught = Some e, exit_status = 1\<rparr>"

subsection \<open>The script\<close>

definition killod :: "host \<Rightarrow> outcome" where
  "killod h =
     (let t = print 3 ''----------------'' [];
          t = print 4 ''Killing OneDrive...'' t;
          t = print 5 ''----------------'' t
      in case run h [''killall'', ''OneDrive''] t of
           (Inl e, t) \<Rightarrow> unhandled e t
         | (Inr result, t) \<Rightarrow>
             (let t = (if truthy (stdout result)
                       then print 9 (repr_CompletedProcess result) t else t);
                  t = print 10 ''OneDrive Killed'' t;
                  t = print 11 ''----------------'' t;
                  t = print 12 ''Opening OneDrive...'' t;
                  t = print 13 ''----------------'' t
              in case run h [''open'', ''-a'', ''OneDrive''] t of
                   (Inl e, t) \<Rightarrow> unhandled e t
                 | (Inr result, t) \<Rightarrow>
                     (let t = (if truthy (stdout result)
                               then print 17 (repr_CompletedProcess result) t else t);
                          t = print 18 ''OneDrive open'' t
                      in completed t)))"

subsection \<open>Reading a trace\<close>

abbreviation kill_argv :: "string list" where
  "kill_argv \<equiv> [''killall'', ''OneDrive'']"

abbreviation open_argv :: "string list" where
  "open_argv \<equiv> [''open'', ''-a'', ''OneDrive'']"

abbreviation separator :: string where
  "separator \<equiv> ''----------------''"

text \<open>The result object the script holds after a call that returned.\<close>

definition result_of :: "string list \<Rightarrow> child_process \<Rightarrow> CompletedProcess" where
  "result_of a p =
     \<lparr>args = a, returncode = exit_code p, stdout = Some (wrote_stdout p), stderr = None\<rparr>"

text \<open>What the conditional \<^verbatim>\<open>print(result)\<close> on line \<open>n\<close> adds to the trace.\<close>

definition echo :: "nat \<Rightarrow> CompletedProcess \<Rightarrow> event list" where
  "echo n r = (if truthy (stdout r) then [Print n (repr_CompletedProcess r)] else [])"

text \<open>All lines written to the console, in order.\<close>

fun printed :: "event list \<Rightarrow> string list" where
  "printed [] = []"
| "printed (Print n s # t) = s # printed t"
| "printed (e # t) = printed t"

text \<open>The lines written by the print statement on line \<open>n\<close>.\<close>

fun printed_at :: "nat \<Rightarrow> event list \<Rightarrow> string list" where
  "printed_at n [] = []"
| "printed_at n (Print m s # t) = (if m = n then s # printed_at n t else printed_at n t)"
| "printed_at n (e # t) = printed_at n t"

text \<open>
  The narration: the lines of every print statement other than the two conditional
  echoes, which are on lines 9 and 17.
\<close>

fun narration :: "event list \<Rightarrow> string list" where
  "narration [] = []"
| "narration (Print n s # t) = (if n = 9 \<or> n = 17 then narration t else s # narration t)"
| "narration (e # t) = narration t"

text \<open>The print statements executed, by line, and the command lines invoked.\<close>

fun print_lines :: "event list \<Rightarrow> nat list" where
  "print_lines [] = []"
| "print_lines (Print n s # t) = n # print_lines t"
| "print_lines (e # t) = print_lines t"

fun invocations :: "event list \<Rightarrow> string list list" where
  "invocations [] = []"
| "invocations (Invoke a # t) = a # invocations t"
| "invocations (e # t) = invocations t"

text \<open>\<open>precedes a b t\<close>: the event \<open>a\<close> occurs in \<open>t\<close> before the first occurrence of \<open>b\<close>.\<close>

definition precedes :: "event \<Rightarrow> event \<Rightarrow> event list \<Rightarrow> bool" where
  "precedes a b t = (a \<in> set (takeWhile (\<lambda>x. x \<noteq> b) t))"

text \<open>The console lines written before the first occurrence of an event.\<close>

definition printed_before :: "event \<Rightarrow> event list \<Rightarrow> string list" where
  "printed_before e t = printed (takeWhile (\<lambda>x. x \<noteq> e) t)"

text \<open>The console lines written after the first occurrence of \<open>a\<close> and before that of \<open>b\<close>.\<close>

definition printed_between :: "event \<Rightarrow> event \<Rightarrow> event list \<Rightarrow> string list" where
  "printed_between a b t =
     printed (takeWhile (\<lambda>x. x \<noteq> b) (drop 1 (dropWhile (\<lambda>x. x \<noteq> a) t)))"

subsection \<open>Example hosts\<close>

text \<open>
  No instance is running: \<^verbatim>\<open>killall\<close> complains on standard error and ends with
  status 1; \<^verbatim>\<open>open\<close> is silent.
\<close>

definition none_found :: child_process where
  "none_found =
     \<lparr>wrote_stdout = [],
      wrote_stderr = ''No matching processes belonging to you were found'' @ [CHR 0x0A],
      exit_code = 1\<rparr>"

definition silent :: child_process where
  "silent = \<lparr>wrote_stdout = [], wrote_stderr = [], exit_code = 0\<rparr>"

definition chatty :: child_process where
  "chatty = \<lparr>wrote_stdout = ''x'', wrote_stderr = [], exit_code = 0\<rparr>"

definition noisy :: child_process where
  "noisy = \<lparr>wrote_stdout = ''x'', wrote_stderr = ''warning'', exit_code = 3\<rparr>"

definition host_with ::
  "(os_error + child_process) \<Rightarrow> (os_error + child_process) \<Rightarrow> host" where
  "host_with k l =
     \<lparr>sys_argv = [''killod.py''], environ = [], files = [],
      spawn = (\<lambda>a. if a = [''killall'', ''OneDrive''] then k
                    else if a = [''open'', ''-a'', ''OneDrive''] then l
                    else Inl FileNotFoundError)\<rparr>"

text \<open>The same commands on a host with other arguments, environment and files.\<close>

definition other_host ::
  "(os_error + child_process) \<Rightarrow> (os_error + child_process) \<Rightarrow> host" where
  "other_host k l =
     (host_with k l)
       \<lparr>sys_argv := [''killod.py'', ''--force''],
        environ := [(''HOME'', ''/Users/me'')],
        files := [(''killod.cfg'', ''target=Teams'')]\<rparr>"

section \<open>The run, case by case\<close>

lemma printed_append [simp]: "printed (s @ t) = printed s @ printed t"
  by (induction s rule: printed.induct) simp_all

lemma printed_at_append [simp]: "printed_at n (s @ t) = printed_at n s @ printed_at n t"
  by (induction n s rule: printed_at.induct) simp_all

lemma narration_append [simp]: "narration (s @ t) = narration s @ narration t"
  by (induction s rule: narration.induct) simp_all

lemma print_lines_append [simp]: "print_lines (s @ t) = print_lines s @ print_lines t"
  by (induction s rule: print_lines.induct) simp_all

lemma invocations_append [simp]: "invocations (s @ t) = invocations s @ invocations t"
  by (induction s rule: invocations.induct) simp_all

lemma run_returns:
  "spawn h a = Inr p \<Longrightarrow> run h a t = (Inr (result_of a p), t @ [Invoke a, Returned (result_of a p)])"
  by (simp add: run_def subprocess_run_def capture_def result_of_def)

lemma run_raises:
  "spawn h a = Inl e \<Longrightarrow> run h a t = (Inl e, t @ [Invoke a, Raised e])"
  by (simp add: run_def subprocess_run_def)

lemma killod_both_return:
  assumes "spawn h kill_argv = Inr p" and "spawn h open_argv = Inr q"
  shows "killod h =
    completed
     ([Print 3 separator, Print 4 ''Killing OneDrive...'', Print 5 separator,
       Invoke kill_argv, Returned (result_of kill_argv p)]
      @ echo 9 (result_of kill_argv p)
      @ [Print 10 ''OneDrive Killed'', Print 11 separator,
         Print 12 ''Opening OneDrive...'', Print 13 separator,
         Invoke open_argv, Returned (result_of open_argv q)]
      @ echo 17 (result_of open_argv q)
      @ [Print 18 ''OneDrive open''])"
  using assms by (simp add: killod_def run_returns print_def echo_def)

lemma killod_kill_raises:
  assumes "spawn h kill_argv = Inl e"
  shows "killod h =
    unhandled e
     [Print 3 separator, Print 4 ''Killing OneDrive...'', Print 5 separator,
      Invoke kill_argv, Raised e]"
  using assms by (simp add: killod_def run_raises print_def)

lemma killod_open_raises:
  assumes "spawn h kill_argv = Inr p" and "spawn h open_argv = Inl e"
  shows "killod h =
    unhandled e
     ([Print 3 separator, Print 4 ''Killing OneDrive...'', Print 5 separator,
       Invoke kill_argv, Returned (result_of kill_argv p)]
      @ echo 9 (result_of kill_argv p)
      @ [Print 10 ''OneDrive Killed'', Print 11 separator,
         Print 12 ''Opening OneDrive...'', Print 13 separator,
         Invoke open_argv, Raised e])"
  using assms by (simp add: killod_def run_returns run_raises print_def echo_def)

lemma spawn_host_with [simp]:
  "spawn (host_with k l) kill_argv = k"
  "spawn (host_with k l) open_argv = l"
  by (simp_all add: host_with_def)

lemma spawn_other_host [simp]:
  "spawn (other_host k l) kill_argv = k"
  "spawn (other_host k l) open_argv = l"
  by (simp_all add: other_host_def)

section \<open>The example run of the specification\<close>

text \<open>
  C1. The target is OneDrive. When both commands return and neither wrote anything to
  its standard output, the console shows exactly eight lines, in this order: separator,
  "Killing OneDrive...", separator, "OneDrive Killed", separator, "Opening OneDrive...",
  separator, "OneDrive open"; no exception is left unhandled and the exit status is 0.
\<close>

theorem quiet_run_transcript:
  assumes "spawn h kill_argv = Inr p" and "spawn h open_argv = Inr q"
    and "wrote_stdout p = []" and "wrote_stdout q = []"
  shows "printed (trace (killod h)) =
           [separator, ''Killing OneDrive...'', separator, ''OneDrive Killed'',
            separator, ''Opening OneDrive...'', separator, ''OneDrive open'']
         \<and> uncaught (killod h) = None \<and> exit_status (killod h) = 0"
  using assms(3,4)
  by (simp add: killod_both_return [OF assms(1,2)] completed_def echo_def result_of_def truthy_def)

theorem quiet_run_transcript_witness:
  "spawn (host_with (Inr none_found) (Inr silent)) kill_argv = Inr none_found
   \<and> spawn (host_with (Inr none_found) (Inr silent)) open_argv = Inr silent
   \<and> wrote_stdout none_found = [] \<and> wrote_stdout silent = []
   \<and> printed (trace (killod (host_with (Inr none_found) (Inr silent)))) =
           [separator, ''Killing OneDrive...'', separator, ''OneDrive Killed'',
            separator, ''Opening OneDrive...'', separator, ''OneDrive open'']
   \<and> uncaught (killod (host_with (Inr none_found) (Inr silent))) = None
   \<and> exit_status (killod (host_with (Inr none_found) (Inr silent))) = 0"
  using quiet_run_transcript [of "host_with (Inr none_found) (Inr silent)" none_found silent]
  by (simp add: none_found_def silent_def)

section \<open>Order of the two invocations\<close>

text \<open>
  C2. In every run in which the launch command is invoked, the kill command was invoked
  and had returned before that, the echo of its result (printed when it captured
  output) and the line "OneDrive Killed" were printed after that return and before the
  launch invocation, and the two commands are each invoked once, kill first.
\<close>

theorem launch_after_kill_handled:
  assumes "Invoke open_argv \<in> set (trace (killod h))"
  shows "\<exists>p. spawn h kill_argv = Inr p
     \<and> precedes (Invoke kill_argv) (Returned (result_of kill_argv p)) (trace (killod h))
     \<and> precedes (Returned (result_of kill_argv p)) (Invoke open_argv) (trace (killod h))
     \<and> (wrote_stdout p \<noteq> [] \<longrightarrow>
           precedes (Returned (result_of kill_argv p))
             (Print 9 (repr_CompletedProcess (result_of kill_argv p))) (trace (killod h))
         \<and> precedes (Print 9 (repr_CompletedProcess (result_of kill_argv p)))
             (Print 10 ''OneDrive Killed'') (trace (killod h)))
     \<and> printed_at 9 (takeWhile (\<lambda>x. x \<noteq> Invoke open_argv) (trace (killod h)))
         = printed_at 9 (trace (killod h))
     \<and> precedes (Print 10 ''OneDrive Killed'') (Invoke open_argv) (trace (killod h))
     \<and> invocations (trace (killod h)) = [kill_argv, open_argv]"
proof (cases "spawn h kill_argv")
  case (Inl e)
  with assms show ?thesis
    by (simp add: killod_kill_raises unhandled_def)
next
  case kill: (Inr p)
  show ?thesis
  proof (cases "spawn h open_argv")
    case (Inl e)
    show ?thesis
      by (simp add: kill killod_open_raises [OF kill Inl] unhandled_def precedes_def
          echo_def result_of_def truthy_def)
  next
    case (Inr q)
    show ?thesis
      by (simp add: kill killod_both_return [OF kill Inr] completed_def precedes_def
          echo_def result_of_def truthy_def)
  qed
qed

theorem launch_after_kill_handled_witness:
  "Invoke open_argv \<in> set (trace (killod (host_with (Inr chatty) (Inr silent))))
   \<and> wrote_stdout chatty \<noteq> []
   \<and> precedes (Returned (result_of kill_argv chatty)) (Invoke open_argv)
       (trace (killod (host_with (Inr chatty) (Inr silent))))
   \<and> precedes (Print 9 (repr_CompletedProcess (result_of kill_argv chatty)))
       (Print 10 ''OneDrive Killed'') (trace (killod (host_with (Inr chatty) (Inr silent))))
   \<and> precedes (Print 10 ''OneDrive Killed'') (Invoke open_argv)
       (trace (killod (host_with (Inr chatty) (Inr silent))))"
proof -
  have issued: "Invoke open_argv \<in> set (trace (killod (host_with (Inr chatty) (Inr silent))))"
    by (simp add: killod_both_return [of _ chatty silent] completed_def)
  have out: "wrote_stdout chatty \<noteq> []"
    by (simp add: chatty_def)
  from launch_after_kill_handled [OF issued] out issued show ?thesis
    by auto
qed

section \<open>A kill command that cannot be started\<close>

text \<open>
  C3. When the call of the kill command raises (the command cannot be started), the run
  ends there with that exception unhandled and exit status 1: the kill command is the
  only invocation and the launch command is never invoked.
\<close>

theorem kill_failure_aborts:
  assumes "spawn h kill_argv = Inl e"
  shows "Invoke open_argv \<notin> set (trace (killod h))
     \<and> invocations (trace (killod h)) = [kill_argv]
     \<and> last (trace (killod h)) = Raised e
     \<and> uncaught (killod h) = Some e
     \<and> exit_status (killod h) = 1"
  by (simp add: killod_kill_raises [OF assms] unhandled_def)

theorem kill_failure_aborts_witness:
  "spawn (host_with (Inl FileNotFoundError) (Inr silent)) kill_argv = Inl FileNotFoundError
   \<and> Invoke open_argv \<notin> set (trace (killod (host_with (Inl FileNotFoundError) (Inr silent))))
   \<and> invocations (trace (killod (host_with (Inl FileNotFoundError) (Inr silent)))) = [kill_argv]
   \<and> uncaught (killod (host_with (Inl FileNotFoundError) (Inr silent))) = Some FileNotFoundError
   \<and> exit_status (killod (host_with (Inl FileNotFoundError) (Inr silent))) = 1"
  using kill_failure_aborts [of "host_with (Inl FileNotFoundError) (Inr silent)" FileNotFoundError]
  by simp

section \<open>What the conditional echo prints\<close>

text \<open>
  C4, as stated: an echo prints the captured output unchanged. It does not: with the
  single byte "x" captured from the kill command, line 9 prints the result object, which
  is a different text.
\<close>

theorem echo_verbatim_counterexample:
  "wrote_stdout chatty = ''x''
   \<and> printed_at 9 (trace (killod (host_with (Inr chatty) (Inr silent)))) =
       [''CompletedProcess(args=['killall', 'OneDrive'], returncode=0, stdout=b'x')'']
   \<and> printed_at 9 (trace (killod (host_with (Inr chatty) (Inr silent)))) \<noteq>
       [wrote_stdout chatty]"
proof -
  have "repr_CompletedProcess (result_of kill_argv chatty) =
      ''CompletedProcess(args=['killall', 'OneDrive'], returncode=0, stdout=b'x')''"
    by code_simp
  then show ?thesis
    by (simp add: killod_both_return [of _ chatty silent] completed_def echo_def
        result_of_def truthy_def chatty_def silent_def)
qed

text \<open>
  C4, amended: for each call that returns, the echo is printed if and only if the
  captured standard output is not empty, and what is printed is one line, the
  \<^verbatim>\<open>repr\<close> of the whole result object (its arguments, its return code and the
  captured bytes as a bytes literal).
\<close>

theorem echo_is_repr_of_result:
  assumes "spawn h kill_argv = Inr p"
  shows "printed_at 9 (trace (killod h)) =
           (if wrote_stdout p \<noteq> [] then [repr_CompletedProcess (result_of kill_argv p)] else [])
     \<and> (\<forall>q. spawn h open_argv = Inr q \<longrightarrow>
           printed_at 17 (trace (killod h)) =
             (if wrote_stdout q \<noteq> [] then [repr_CompletedProcess (result_of open_argv q)]
              else []))"
proof (cases "spawn h open_argv")
  case (Inl e)
  show ?thesis
    by (simp add: killod_open_raises [OF assms Inl] Inl unhandled_def echo_def
        result_of_def truthy_def)
next
  case (Inr q)
  show ?thesis
    by (simp add: killod_both_return [OF assms Inr] Inr completed_def echo_def
        result_of_def truthy_def)
qed

theorem echo_is_repr_of_result_witness:
  "spawn (host_with (Inr chatty) (Inr noisy)) kill_argv = Inr chatty
   \<and> spawn (host_with (Inr chatty) (Inr noisy)) open_argv = Inr noisy
   \<and> printed_at 9 (trace (killod (host_with (Inr chatty) (Inr noisy)))) =
       [repr_CompletedProcess (result_of kill_argv chatty)]
   \<and> printed_at 17 (trace (killod (host_with (Inr chatty) (Inr noisy)))) =
       [repr_CompletedProcess (result_of open_argv noisy)]"
  using echo_is_repr_of_result [of "host_with (Inr chatty) (Inr noisy)" chatty]
  by (simp add: chatty_def noisy_def)

section \<open>The shape of the narration\<close>

text \<open>
  C5, as stated: four fixed lines are printed before the kill call, and four again
  between the line "OneDrive Killed" and the launch call. In a run on a host with no
  instance running there are three before the kill call (separator, "Killing
  OneDrive...", separator) and three before the launch call.
\<close>

theorem four_lines_before_kill_counterexample:
  "printed_before (Invoke kill_argv) (trace (killod (host_with (Inr none_found) (Inr silent))))
     = [separator, ''Killing OneDrive...'', separator]
   \<and> length (printed_before (Invoke kill_argv)
         (trace (killod (host_with (Inr none_found) (Inr silent))))) \<noteq> 4
   \<and> length (printed_between (Print 10 ''OneDrive Killed'') (Invoke open_argv)
         (trace (killod (host_with (Inr none_found) (Inr silent))))) \<noteq> 4"
  by (simp add: killod_both_return [of _ none_found silent] completed_def echo_def
      result_of_def truthy_def none_found_def silent_def printed_before_def printed_between_def)

text \<open>
  C5, amended: when both calls return, the console shows three fixed lines before the
  kill call (separator, "Killing OneDrive...", separator), then the echo of the kill
  result if there is one, then "OneDrive Killed", then three fixed lines before the
  launch call (separator, "Opening OneDrive...", separator), then the echo of the
  launch result if there is one, then "OneDrive open": eight fixed lines in all.
\<close>

theorem narration_structure:
  assumes "spawn h kill_argv = Inr p" and "spawn h open_argv = Inr q"
  shows "printed_before (Invoke kill_argv) (trace (killod h))
           = [separator, ''Killing OneDrive...'', separator]
     \<and> printed_between (Invoke kill_argv) (Print 10 ''OneDrive Killed'') (trace (killod h))
           = printed (echo 9 (result_of kill_argv p))
     \<and> printed_between (Print 10 ''OneDrive Killed'') (Invoke open_argv) (trace (killod h))
           = [separator, ''Opening OneDrive...'', separator]
     \<and> printed_between (Invoke open_argv) (Print 18 ''OneDrive open'') (trace (killod h))
           = printed (echo 17 (result_of open_argv q))
     \<and> printed (trace (killod h))
           = [separator, ''Killing OneDrive...'', separator]
             @ printed (echo 9 (result_of kill_argv p))
             @ [''OneDrive Killed'']
             @ [separator, ''Opening OneDrive...'', separator]
             @ printed (echo 17 (result_of open_argv q))
             @ [''OneDrive open'']"
  by (simp add: killod_both_return [OF assms] completed_def echo_def
      printed_before_def printed_between_def)

theorem narration_structure_witness:
  "spawn (host_with (Inr none_found) (Inr noisy)) kill_argv = Inr none_found
   \<and> spawn (host_with (Inr none_found) (Inr noisy)) open_argv = Inr noisy
   \<and> printed (trace (killod (host_with (Inr none_found) (Inr noisy))))
       = [separator, ''Killing OneDrive...'', separator, ''OneDrive Killed'',
          separator, ''Opening OneDrive...'', separator,
          repr_CompletedProcess (result_of open_argv noisy), ''OneDrive open'']"
  using narration_structure [of "host_with (Inr none_found) (Inr noisy)" none_found noisy]
  by (simp add: echo_def result_of_def truthy_def none_found_def noisy_def)

section \<open>Exit codes of the two commands\<close>

text \<open>
  C6. The script neither tests nor selects the exit code of a command. Whatever exit
  codes the two commands return, it executes the print statements of lines 3, 4, 5,
  10, 11, 12, 13 and 18 and the two invocations, it executes the prints of lines 9 and
  17 according to the captured standard output alone, it ends after line 18 with no
  exception and it exits with status 0. The result object is handed to
  \<^verbatim>\<open>print\<close> as it was returned, so the text of an echo is the \<^verbatim>\<open>repr\<close> of that
  object and nothing else; the return code appears there as the field
  \<^verbatim>\<open>returncode=\<close>, and nowhere else in the output. Two runs that differ only in
  the exit codes of the commands therefore take the same path, and their output differs
  in that field only.
\<close>

theorem exit_codes_not_consulted:
  assumes "spawn h kill_argv = Inr p" and "spawn h open_argv = Inr q"
    and "spawn h' kill_argv = Inr (p\<lparr>exit_code := c\<rparr>)"
    and "spawn h' open_argv = Inr (q\<lparr>exit_code := d\<rparr>)"
  shows "exit_status (killod h) = 0 \<and> exit_status (killod h') = 0
     \<and> uncaught (killod h) = None \<and> uncaught (killod h') = None
     \<and> last (trace (killod h)) = Print 18 ''OneDrive open''
     \<and> last (trace (killod h')) = Print 18 ''OneDrive open''
     \<and> print_lines (trace (killod h')) = print_lines (trace (killod h))
     \<and> invocations (trace (killod h')) = invocations (trace (killod h))
     \<and> narration (trace (killod h')) = narration (trace (killod h))
     \<and> print_lines (trace (killod h)) =
          [3, 4, 5] @ (if wrote_stdout p = [] then [] else [9])
          @ [10, 11, 12, 13] @ (if wrote_stdout q = [] then [] else [17]) @ [18]
     \<and> invocations (trace (killod h)) = [kill_argv, open_argv]
     \<and> printed (trace (killod h)) =
          [separator, ''Killing OneDrive...'', separator]
          @ (if wrote_stdout p = [] then []
             else [repr_CompletedProcess
                     \<lparr>args = kill_argv, returncode = exit_code p,
                      stdout = Some (wrote_stdout p), stderr = None\<rparr>])
          @ [''OneDrive Killed'', separator, ''Opening OneDrive...'', separator]
          @ (if wrote_stdout q = [] then []
             else [repr_CompletedProcess
                     \<lparr>args = open_argv, returncode = exit_code q,
                      stdout = Some (wrote_stdout q), stderr = None\<rparr>])
          @ [''OneDrive open'']
     \<and> printed (trace (killod h')) =
          [separator, ''Killing OneDrive...'', separator]
          @ (if wrote_stdout p = [] then []
             else [repr_CompletedProcess
                     \<lparr>args = kill_argv, returncode = c,
                      stdout = Some (wrote_stdout p), stderr = None\<rparr>])
          @ [''OneDrive Killed'', separator, ''Opening OneDrive...'', separator]
          @ (if wrote_stdout q = [] then []
             else [repr_CompletedProcess
                     \<lparr>args = open_argv, returncode = d,
                      stdout = Some (wrote_stdout q), stderr = None\<rparr>])
          @ [''OneDrive open'']"
  by (simp add: killod_both_return [OF assms(1,2)] killod_both_return [OF assms(3,4)]
      completed_def echo_def result_of_def truthy_def)

theorem exit_codes_not_consulted_witness:
  "spawn (host_with (Inr chatty) (Inr silent)) kill_argv = Inr chatty
   \<and> spawn (host_with (Inr (chatty\<lparr>exit_code := 1\<rparr>)) (Inr (silent\<lparr>exit_code := 2\<rparr>)))
         open_argv = Inr (silent\<lparr>exit_code := 2\<rparr>)
   \<and> exit_status (killod (host_with (Inr chatty) (Inr silent))) = 0
   \<and> exit_status (killod (host_with (Inr (chatty\<lparr>exit_code := 1\<rparr>))
                                   (Inr (silent\<lparr>exit_code := 2\<rparr>)))) = 0
   \<and> print_lines (trace (killod (host_with (Inr (chatty\<lparr>exit_code := 1\<rparr>))
                                            (Inr (silent\<lparr>exit_code := 2\<rparr>)))))
       = print_lines (trace (killod (host_with (Inr chatty) (Inr silent))))
   \<and> print_lines (trace (killod (host_with (Inr chatty) (Inr silent))))
       = [3, 4, 5, 9, 10, 11, 12, 13, 18]
   \<and> printed (trace (killod (host_with (Inr chatty) (Inr silent)))) =
       [separator, ''Killing OneDrive...'', separator,
        ''CompletedProcess(args=['killall', 'OneDrive'], returncode=0, stdout=b'x')'',
        ''OneDrive Killed'', separator, ''Opening OneDrive...'', separator,
        ''OneDrive open'']
   \<and> printed (trace (killod (host_with (Inr (chatty\<lparr>exit_code := 1\<rparr>))
                                        (Inr (silent\<lparr>exit_code := 2\<rparr>))))) =
       [separator, ''Killing OneDrive...'', separator,
        ''CompletedProcess(args=['killall', 'OneDrive'], returncode=1, stdout=b'x')'',
        ''OneDrive Killed'', separator, ''Opening OneDrive...'', separator,
        ''OneDrive open'']"
proof -
  have zero: "repr_CompletedProcess
        \<lparr>args = kill_argv, returncode = 0, stdout = Some ''x'', stderr = None\<rparr>
      = ''CompletedProcess(args=['killall', 'OneDrive'], returncode=0, stdout=b'x')''"
    by code_simp
  have one: "repr_CompletedProcess
        \<lparr>args = kill_argv, returncode = 1, stdout = Some ''x'', stderr = None\<rparr>
      = ''CompletedProcess(args=['killall', 'OneDrive'], returncode=1, stdout=b'x')''"
    by code_simp
  from exit_codes_not_consulted
    [of "host_with (Inr chatty) (Inr silent)" chatty silent
        "host_with (Inr (chatty\<lparr>exit_code := 1\<rparr>)) (Inr (silent\<lparr>exit_code := 2\<rparr>))" 1 2]
  show ?thesis
    by (simp add: zero one chatty_def silent_def)
qed

section \<open>Nothing to kill\<close>

text \<open>
  C7. Whenever the kill command returns, with any exit code and any output, so also
  when it found no process and ended with a non-zero status, the launch command is
  invoked after it.
\<close>

theorem nothing_to_kill_still_launches:
  assumes "spawn h kill_argv = Inr p"
  shows "Invoke open_argv \<in> set (trace (killod h))
     \<and> invocations (trace (killod h)) = [kill_argv, open_argv]
     \<and> precedes (Returned (result_of kill_argv p)) (Invoke open_argv) (trace (killod h))"
proof (cases "spawn h open_argv")
  case (Inl e)
  show ?thesis
    by (simp add: killod_open_raises [OF assms Inl] unhandled_def echo_def precedes_def)
next
  case (Inr q)
  show ?thesis
    by (simp add: killod_both_return [OF assms Inr] completed_def echo_def precedes_def)
qed

theorem nothing_to_kill_still_launches_witness:
  "spawn (host_with (Inr none_found) (Inr silent)) kill_argv = Inr none_found
   \<and> exit_code none_found \<noteq> 0
   \<and> Invoke open_argv \<in> set (trace (killod (host_with (Inr none_found) (Inr silent))))"
  using nothing_to_kill_still_launches [of "host_with (Inr none_found) (Inr silent)" none_found]
  by (simp add: none_found_def)

section \<open>The narration does not depend on the run\<close>

text \<open>
  C8. In any two runs in which both calls return, whatever the commands wrote and
  whatever their exit codes, the narration (the printed lines without the two
  conditional echoes) is the same, namely the eight fixed lines.
\<close>

theorem narration_same_in_all_runs:
  assumes "spawn h kill_argv = Inr p" and "spawn h open_argv = Inr q"
    and "spawn h' kill_argv = Inr p'" and "spawn h' open_argv = Inr q'"
  shows "narration (trace (killod h)) = narration (trace (killod h'))
     \<and> narration (trace (killod h)) =
         [separator, ''Killing OneDrive...'', separator, ''OneDrive Killed'',
          separator, ''Opening OneDrive...'', separator, ''OneDrive open'']"
  by (simp add: killod_both_return [OF assms(1,2)] killod_both_return [OF assms(3,4)]
      completed_def echo_def)

theorem narration_same_in_all_runs_witness:
  "spawn (host_with (Inr none_found) (Inr silent)) kill_argv = Inr none_found
   \<and> spawn (host_with (Inr chatty) (Inr noisy)) open_argv = Inr noisy
   \<and> narration (trace (killod (host_with (Inr none_found) (Inr silent))))
       = narration (trace (killod (host_with (Inr chatty) (Inr noisy))))"
  using narration_same_in_all_runs
    [of "host_with (Inr none_found) (Inr silent)" none_found silent
        "host_with (Inr chatty) (Inr noisy)" chatty noisy]
  by simp

section \<open>Which stream is captured\<close>

text \<open>
  C9, as stated: the captured output holds what the command wrote to standard output
  and to standard error. It does not: when \<^verbatim>\<open>killall\<close> writes its complaint to
  standard error only, the captured output is empty, the result has no captured
  standard error, and nothing is echoed.
\<close>

theorem stderr_captured_counterexample:
  "wrote_stderr none_found \<noteq> []
   \<and> subprocess_run (host_with (Inr none_found) (Inr silent)) kill_argv (Some PIPE) None
       = Inr \<lparr>args = kill_argv, returncode = 1, stdout = Some [], stderr = None\<rparr>
   \<and> Returned \<lparr>args = kill_argv, returncode = 1, stdout = Some [], stderr = None\<rparr>
       \<in> set (trace (killod (host_with (Inr none_found) (Inr silent))))
   \<and> printed_at 9 (trace (killod (host_with (Inr none_found) (Inr silent)))) = []"
  by (simp add: killod_both_return [of _ none_found silent] completed_def echo_def
      result_of_def truthy_def none_found_def silent_def subprocess_run_def capture_def)

text \<open>
  C9, amended: for each call that returns, the captured output held in the result and
  tested for the echo is exactly what the command wrote to its standard output;
  standard error is not captured (the attribute of the result is \<^verbatim>\<open>None\<close>) and has
  no influence on the echo.
\<close>

theorem captured_output_is_stdout_only:
  assumes "spawn h kill_argv = Inr p"
  shows "Returned \<lparr>args = kill_argv, returncode = exit_code p,
                   stdout = Some (wrote_stdout p), stderr = None\<rparr>
           \<in> set (trace (killod h))
     \<and> (printed_at 9 (trace (killod h)) \<noteq> []) = (wrote_stdout p \<noteq> [])
     \<and> (\<forall>q. spawn h open_argv = Inr q \<longrightarrow>
           Returned \<lparr>args = open_argv, returncode = exit_code q,
                     stdout = Some (wrote_stdout q), stderr = None\<rparr>
             \<in> set (trace (killod h))
         \<and> (printed_at 17 (trace (killod h)) \<noteq> []) = (wrote_stdout q \<noteq> []))"
proof (cases "spawn h open_argv")
  case (Inl e)
  show ?thesis
    by (simp add: killod_open_raises [OF assms Inl] Inl unhandled_def echo_def
        result_of_def truthy_def)
next
  case (Inr q)
  show ?thesis
    by (simp add: killod_both_return [OF assms Inr] Inr completed_def echo_def
        result_of_def truthy_def)
qed

theorem captured_output_is_stdout_only_witness:
  "spawn (host_with (Inr noisy) (Inr none_found)) kill_argv = Inr noisy
   \<and> spawn (host_with (Inr noisy) (Inr none_found)) open_argv = Inr none_found
   \<and> wrote_stderr noisy = ''warning''
   \<and> Returned \<lparr>args = kill_argv, returncode = 3, stdout = Some ''x'', stderr = None\<rparr>
       \<in> set (trace (killod (host_with (Inr noisy) (Inr none_found))))
   \<and> printed_at 9 (trace (killod (host_with (Inr noisy) (Inr none_found)))) \<noteq> []
   \<and> wrote_stderr none_found \<noteq> []
   \<and> printed_at 17 (trace (killod (host_with (Inr noisy) (Inr none_found)))) = []"
  using captured_output_is_stdout_only [of "host_with (Inr noisy) (Inr none_found)" noisy]
  by (simp add: noisy_def none_found_def)

section \<open>The run depends on the results of the two commands only\<close>

text \<open>
  C10. The script reads no arguments, no environment and no files: two runs on any two
  hosts in which the two commands return the same standard output and the same exit
  codes have the same trace, the same console output and the same exit status.
\<close>

theorem output_determined_by_results:
  assumes "spawn h kill_argv = Inr p" and "spawn h open_argv = Inr q"
    and "spawn h' kill_argv = Inr p'" and "spawn h' open_argv = Inr q'"
    and "wrote_stdout p' = wrote_stdout p" and "exit_code p' = exit_code p"
    and "wrote_stdout q' = wrote_stdout q" and "exit_code q' = exit_code q"
  shows "killod h' = killod h \<and> printed (trace (killod h')) = printed (trace (killod h))"
  using assms(5-8)
  by (simp add: killod_both_return [OF assms(1,2)] killod_both_return [OF assms(3,4)]
      result_of_def)

theorem output_determined_by_results_witness:
  "sys_argv (other_host (Inr noisy) (Inr silent)) \<noteq> sys_argv (host_with (Inr chatty) (Inr silent))
   \<and> wrote_stderr noisy \<noteq> wrote_stderr chatty
   \<and> killod (other_host (Inr (noisy\<lparr>exit_code := 0\<rparr>)) (Inr silent))
       = killod (host_with (Inr chatty) (Inr silent))"
  using output_determined_by_results
    [of "host_with (Inr chatty) (Inr silent)" chatty silent
        "other_host (Inr (noisy\<lparr>exit_code := 0\<rparr>)) (Inr silent)" "noisy\<lparr>exit_code := 0\<rparr>" silent]
  by (simp add: noisy_def chatty_def other_host_def host_with_def)

end
